theory Spec2Isabelle
  imports Main "HOL-Library.Sublist"
begin

section \<open>Strings\<close>

text \<open>
  Python strings are modelled as HOL strings, lists of 8-bit characters: the first 256 code
  points, which cover the text the keyword tests of the scraper are about. \<open>kw in text\<close>
  is the contiguous substring test \<^const>\<open>sublist\<close>, \<open>s.startswith(p)\<close> is
  \<^const>\<open>prefix\<close>.
\<close>

text \<open>\<open>s.lower()\<close>: the capital letters \<open>A\<close> to \<open>Z\<close> and those of Latin-1.\<close>

definition lower_char :: "char \<Rightarrow> char" where
  "lower_char c =
     (let n = (of_char c :: nat) in
      if (65 \<le> n \<and> n \<le> 90) \<or> (192 \<le> n \<and> n \<le> 222 \<and> n \<noteq> 215) then char_of (n + 32)
      else c)"

definition lower :: "string \<Rightarrow> string" where
  "lower s = map lower_char s"

text \<open>\<open>any(kw in s for kw in kws)\<close>\<close>

definition any_in :: "string list \<Rightarrow> string \<Rightarrow> bool" where
  "any_in kws s = list_ex (\<lambda>kw. sublist kw s) kws"

text \<open>\<open>s.split(c)\<close> for a one-character separator: never empty, so \<open>[-1]\<close> is defined.\<close>

fun split :: "char \<Rightarrow> string \<Rightarrow> string list" where
  "split c [] = [[]]"
| "split c (x # xs) =
     (if x = c then [] # split c xs
      else (case split c xs of [] \<Rightarrow> [[x]] | p # ps \<Rightarrow> (x # p) # ps))"

text \<open>\<open>sep.join(parts)\<close>\<close>

fun join :: "string \<Rightarrow> string list \<Rightarrow> string" where
  "join sep [] = []"
| "join sep [p] = p"
| "join sep (p # q # ps) = p @ sep @ join sep (q # ps)"

text \<open>Truthiness of \<open>d.get(key)\<close>: the key is present and its string is not empty.\<close>

fun truthy :: "string option \<Rightarrow> bool" where
  "truthy None = False"
| "truthy (Some s) = (s \<noteq> [])"

section \<open>The parsed page, as the scraper observes it\<close>

text \<open>
  The markup parser and the browser are external collaborators. A tag of the parsed page is
  represented by the results of the queries that \<open>scrape_gcf_jobs\<close> makes on it; a query
  that finds nothing is \<open>None\<close>. Queries on tags do not raise. The one call whose
  availability depends on the parser's version is \<open>get_text\<close> on the text node returned
  by \<open>find(string=...)\<close> (line 218), so its result is a sum.
\<close>

datatype exn = Exn string

record element =
  el_name :: string  \<comment> \<open>\<open>element.name\<close>\<close>
  el_href :: "string option"  \<comment> \<open>\<open>element.get('href')\<close>\<close>
  el_text :: string  \<comment> \<open>\<open>element.get_text(strip=True)\<close>\<close>
  el_heading_title :: bool
    \<comment> \<open>\<open>element.find(['h2','h3','h4'], class_=...'title'...)\<close> finds a tag\<close>
  el_inner_href :: "string option"
    \<comment> \<open>\<open>element.find('a', href=True)['href']\<close>\<close>
  el_automation_id :: "string option"  \<comment> \<open>attribute \<open>data-automation-id\<close>\<close>
  el_parent_texts :: "string list"
    \<comment> \<open>texts of \<open>parent.find_all(['span','div','p'])\<close>, \<open>[]\<close> without a parent\<close>
  el_title_text :: "string option"
    \<comment> \<open>text of \<open>element.find(['h2','h3','h4','a','span'], class_=...'title'...)\<close>\<close>
  el_first_a_text :: "string option"  \<comment> \<open>text of \<open>element.find('a')\<close>\<close>
  el_location_text :: "string option"
    \<comment> \<open>text of \<open>element.find(['span','div','p'], class_=...'location'...)\<close>\<close>
  el_location_string :: "(exn + string) option"
    \<comment> \<open>\<open>element.find(string=...)\<close> and its \<open>get_text(strip=True)\<close>\<close>
  el_department_text :: "string option"
  el_date_text :: "string option"

record soup =
  tags :: "element list"  \<comment> \<open>every tag of the page, in document order\<close>
  h1_text :: "string option"  \<comment> \<open>text of \<open>find('h1')\<close>\<close>
  heading_title_text :: "string option"
    \<comment> \<open>text of \<open>find(['h2','h3'], class_=...'title'...)\<close>\<close>
  location_label_text :: "string option"
    \<comment> \<open>text of the parent of \<open>find(string=...'Location:'/'Posting Location'...)\<close>\<close>

section \<open>Candidate discovery (lines 80-109)\<close>

text \<open>The \<open>href\<close> filter of strategy 1.\<close>

definition job_href :: "string option \<Rightarrow> bool" where
  "job_href x =
     (case x of None \<Rightarrow> False
      | Some h \<Rightarrow> h \<noteq> [] \<and>
          (sublist ''/requisition'' (lower h) \<or> sublist ''/job/'' h \<or>
           sublist ''requisitionid'' (lower h) \<or> sublist ''jobdetails'' (lower h)))"

definition job_links :: "soup \<Rightarrow> element list" where
  "job_links sp = filter (\<lambda>e. el_name e = ''a'' \<and> job_href (el_href e)) (tags sp)"

definition titled_containers :: "soup \<Rightarrow> element list" where
  "titled_containers sp =
     filter (\<lambda>e. el_name e \<in> set [''div'', ''article'', ''li''] \<and>
                 el_heading_title e \<and> el_inner_href e \<noteq> None) (tags sp)"

definition job_automation :: "string option \<Rightarrow> bool" where
  "job_automation x = (case x of None \<Rightarrow> False | Some a \<Rightarrow> a \<noteq> [] \<and> sublist ''job'' (lower a))"

definition job_containers :: "soup \<Rightarrow> element list" where
  "job_containers sp =
     filter (\<lambda>e. el_name e \<in> set [''div'', ''article''] \<and> job_automation (el_automation_id e))
       (tags sp)"

datatype strategy = Strategy1 | Strategy2 | Strategy3

text \<open>
  The cascade: the queries of strategy 2 and of strategy 3 run only under
  \<open>if not job_elements\<close>. The first component lists the strategies whose queries ran.
\<close>

definition discover :: "soup \<Rightarrow> strategy list \<times> element list" where
  "discover sp =
     (let job_elements = job_links sp in
      if job_elements \<noteq> [] then ([Strategy1], job_elements)
      else let job_elements = titled_containers sp in
        if job_elements \<noteq> [] then ([Strategy1, Strategy2], job_elements)
        else ([Strategy1, Strategy2, Strategy3], job_containers sp))"

section \<open>Filtering of navigation links (lines 111-127) and the cap (line 130)\<close>

definition skip_keywords :: "string list" where
  "skip_keywords = [''sitemap'', ''account'', ''sign-in'', ''profile'', ''help'', ''about'']"

definition link_skip_keywords :: "string list" where
  "link_skip_keywords = [''sitemap'', ''sign-in'', ''profile'']"

definition is_navigation :: "element \<Rightarrow> bool" where
  "is_navigation e =
     (let text = lower (el_text e);
          link = (if el_name e = ''a'' then (case el_href e of None \<Rightarrow> [] | Some h \<Rightarrow> h) else [])
      in any_in skip_keywords text \<or> any_in link_skip_keywords (lower link))"

definition filtered_elements :: "element list \<Rightarrow> element list" where
  "filtered_elements job_elements = filter (\<lambda>e. \<not> is_navigation e) job_elements"

definition candidates :: "soup \<Rightarrow> element list" where
  "candidates sp = take 50 (filtered_elements (snd (discover sp)))"

section \<open>The browser\<close>

text \<open>
  The browser session is a stateful external collaborator. Its state is the list of
  commands issued so far; how it answers the next call is a function of that history and is
  taken as a parameter. \<open>None\<close> from a command means that it returned, \<open>Some e\<close> that it
  raised \<open>e\<close>. The fixed waits (\<open>time.sleep\<close>) and the progress lines printed on standard
  output are not modelled.
\<close>

datatype command = Get string | Click | ExecuteScript string | Quit

type_synonym history = "command list"

record browser =
  get :: "history \<Rightarrow> string \<Rightarrow> exn option"  \<comment> \<open>\<open>driver.get(url)\<close>\<close>
  find_tab :: "history \<Rightarrow> exn + bool"
    \<comment> \<open>\<open>driver.find_elements(By.XPATH, ...'Staffs'...)\<close>: is the list non-empty\<close>
  click :: "history \<Rightarrow> exn option"  \<comment> \<open>\<open>staffs_button[0].click()\<close>\<close>
  execute_script :: "history \<Rightarrow> string \<Rightarrow> exn option"
  page_source :: "history \<Rightarrow> exn + soup"
    \<comment> \<open>\<open>BeautifulSoup(driver.page_source, 'html.parser')\<close>\<close>

definition url :: string where
  "url = ''https://jobs.greenclimate.fund/en/sites/CX_1001/jobs''"

definition scroll_bottom :: string where
  "scroll_bottom = ''window.scrollTo(0, document.body.scrollHeight);''"

definition scroll_top :: string where
  "scroll_top = ''window.scrollTo(0, 0);''"

text \<open>Lines 55-63: the tab click, whose errors are caught on the spot.\<close>

definition click_staffs :: "browser \<Rightarrow> history \<Rightarrow> history" where
  "click_staffs b h =
     (case find_tab b h of
        Inl e \<Rightarrow> h
      | Inr found \<Rightarrow>
          if found then (case click b h of Some e \<Rightarrow> h @ [Click] | None \<Rightarrow> h @ [Click])
          else h)"

text \<open>
  Lines 44-73: load the listing, click the tab, scroll down and up, read the rendered page.
  An error of any of these calls leaves the \<open>try\<close> block; the history up to the failing
  call is returned with it.
\<close>

definition load_listing :: "browser \<Rightarrow> history \<Rightarrow> history \<times> (exn + soup)" where
  "load_listing b h0 =
     (let h1 = h0 @ [Get url];
          h2 = click_staffs b h1;
          h3 = h2 @ [ExecuteScript scroll_bottom];
          h4 = h3 @ [ExecuteScript scroll_top]
      in (case get b h0 url of Some e \<Rightarrow> (h1, Inl e)
          | None \<Rightarrow>
         (case execute_script b h2 scroll_bottom of Some e \<Rightarrow> (h3, Inl e)
          | None \<Rightarrow>
         (case execute_script b h3 scroll_top of Some e \<Rightarrow> (h4, Inl e)
          | None \<Rightarrow> (h4, page_source b h4)))))"

section \<open>Per-candidate extraction (lines 130-243)\<close>

subsection \<open>More string operations\<close>

text \<open>\<open>s.replace(old, new)\<close>, for a non-empty \<open>old\<close> (the only use the program makes of it).\<close>

function replace :: "string \<Rightarrow> string \<Rightarrow> string \<Rightarrow> string" where
  "replace old new [] = []"
| "replace old new (x # xs) =
     (if old \<noteq> [] \<and> prefix old (x # xs)
      then new @ replace old new (drop (length old) (x # xs))
      else x # replace old new xs)"
  by pat_completeness auto
termination
  by (relation "measure (\<lambda>(old, new, s). length s)") auto

text \<open>\<open>s.strip()\<close>: the white space of \<open>str.isspace\<close> among the first 256 code points.\<close>

definition is_space :: "char \<Rightarrow> bool" where
  "is_space c = ((of_char c :: nat) \<in> set [9, 10, 11, 12, 13, 28, 29, 30, 31, 32, 133, 160])"

definition strip :: "string \<Rightarrow> string" where
  "strip s = rev (dropWhile is_space (rev (dropWhile is_space s)))"

subsection \<open>Link (lines 135-145)\<close>

definition origin :: string where
  "origin = ''https://jobs.greenclimate.fund''"

definition absolute_link :: "string \<Rightarrow> string" where
  "absolute_link href = (if prefix ''http'' href then href else origin @ href)"

text \<open>The attribute the link is taken from: the candidate's own, or its first hyperlink's.\<close>

definition link_attribute :: "element \<Rightarrow> string option" where
  "link_attribute e =
     (if el_name e = ''a'' \<and> truthy (el_href e) then el_href e else el_inner_href e)"

definition extract_link :: "element \<Rightarrow> string option" where
  "extract_link e = map_option absolute_link (link_attribute e)"

subsection \<open>Title and the location next to it (lines 150-172)\<close>

definition location_keywords :: "string list" where
  "location_keywords = [''Remote'', ''Hybrid'', ''Incheon'', ''Korea'', ''Republic of Korea'']"

text \<open>Lines 159-162: every matching child overwrites the location, so the last one stays.\<close>

definition parent_location :: "string list \<Rightarrow> string option" where
  "parent_location texts =
     fold (\<lambda>text loc. if any_in location_keywords text then Some text else loc) texts None"

definition extract_title :: "element \<Rightarrow> string" where
  "extract_title e =
     (if el_name e = ''a'' then el_text e
      else (case el_title_text e of Some t \<Rightarrow> t
            | None \<Rightarrow> (case el_first_a_text e of Some t \<Rightarrow> t
                       | None \<Rightarrow> take 100 (el_text e))))"

definition initial_location :: "element \<Rightarrow> string option" where
  "initial_location e = (if el_name e = ''a'' then parent_location (el_parent_texts e) else None)"

subsection \<open>The detail page (lines 174-211)\<close>

definition needs_details :: "string \<Rightarrow> bool" where
  "needs_details ttl = (ttl = [] \<or> length ttl < 5 \<or> prefix ''Position'' ttl)"

text \<open>Lines 185-201: title and location read from the detail page.\<close>

definition read_details :: "soup \<Rightarrow> string \<times> string option \<Rightarrow> string \<times> string option" where
  "read_details job_soup tloc =
     (let ttl = (case h1_text job_soup of Some t \<Rightarrow> t
                 | None \<Rightarrow> (case heading_title_text job_soup of Some t \<Rightarrow> t
                            | None \<Rightarrow> fst tloc));
          loc = (case location_label_text job_soup of None \<Rightarrow> snd tloc
                 | Some text \<Rightarrow>
                     let location_text =
                       strip (replace ''Posting Location'' [] (replace ''Location:'' [] text))
                     in if location_text \<noteq> [] then Some location_text else snd tloc)
      in (ttl, loc))"

text \<open>Lines 207-211: the handler of the detour.\<close>

definition keep_default_title :: "string \<Rightarrow> string \<times> string option \<Rightarrow> string \<times> string option" where
  "keep_default_title lnk tloc =
     (if fst tloc = [] then (''Position '' @ last (split CHR ''/'' lnk), snd tloc) else tloc)"

definition fetch_details ::
  "browser \<Rightarrow> history \<Rightarrow> string \<Rightarrow> string \<times> string option \<Rightarrow>
     history \<times> (string \<times> string option)" where
  "fetch_details b h lnk tloc =
     (let h1 = h @ [Get lnk]; h2 = h1 @ [Get url] in
      (case get b h lnk of Some e \<Rightarrow> (h1, keep_default_title lnk tloc)
       | None \<Rightarrow>
      (case page_source b h1 of Inl e \<Rightarrow> (h1, keep_default_title lnk tloc)
       | Inr job_soup \<Rightarrow>
      (case get b h1 url of
         Some e \<Rightarrow> (h2, keep_default_title lnk (read_details job_soup tloc))
       | None \<Rightarrow> (h2, read_details job_soup tloc)))))"

subsection \<open>Location, department, date, description (lines 213-235)\<close>

definition find_location :: "element \<Rightarrow> exn + string" where
  "find_location e =
     (case el_location_text e of Some t \<Rightarrow> Inr t
      | None \<Rightarrow> (case el_location_string e of Some r \<Rightarrow> r
                 | None \<Rightarrow> Inr ''Green Climate Fund''))"

definition description_parts :: "string \<Rightarrow> string \<Rightarrow> string \<Rightarrow> string list" where
  "description_parts ttl loc dept =
     [ttl] @ (if loc \<noteq> ''Not specified'' then [''Location: '' @ loc] else [])
           @ (if dept \<noteq> [] then [''Department: '' @ dept] else [])"

text \<open>
  The record of one posting is a dictionary with these six keys; a field is \<open>None\<close> when
  the key is absent.
\<close>

record job_data =
  link :: "string option"
  title :: "string option"
  location :: "string option"
  department :: "string option"
  pubDate :: "string option"
  description :: "string option"

subsection \<open>One candidate, and the loop\<close>

text \<open>Lines 150-211: the title and location found on the listing, refined on the detail page.\<close>

definition refine ::
  "browser \<Rightarrow> history \<Rightarrow> string \<Rightarrow> element \<Rightarrow> history \<times> (string \<times> string option)" where
  "refine b h lnk e =
     (let tloc = (extract_title e, initial_location e) in
      if needs_details (fst tloc) then fetch_details b h lnk tloc else (h, tloc))"

text \<open>Lines 213-218: \<open>if 'location' not in job_data\<close>.\<close>

definition resolve_location :: "element \<Rightarrow> string option \<Rightarrow> exn + string" where
  "resolve_location e loc = (case loc of Some l \<Rightarrow> Inr l | None \<Rightarrow> find_location e)"

text \<open>Lines 220-235: department, date and description complete the record.\<close>

definition job_record :: "string \<Rightarrow> string \<Rightarrow> string \<Rightarrow> element \<Rightarrow> job_data" where
  "job_record lnk ttl loc e =
     (let dept = (case el_department_text e of Some t \<Rightarrow> t | None \<Rightarrow> []);
          pub = (case el_date_text e of Some t \<Rightarrow> t | None \<Rightarrow> [])
      in \<lparr>link = Some lnk, title = Some ttl, location = Some loc, department = Some dept,
          pubDate = Some pub,
          description = Some (join '' | '' (description_parts ttl loc dept))\<rparr>)"

text \<open>
  The body of the loop returns the browser's history and either the error that left the
  body (caught at line 241), or \<open>None\<close> when nothing was appended, or the appended record.
\<close>

definition process_element ::
  "browser \<Rightarrow> history \<Rightarrow> element \<Rightarrow> history \<times> (exn + job_data option)" where
  "process_element b h e =
     (case extract_link e of
        None \<Rightarrow> (h, Inr None)
      | Some lnk \<Rightarrow>
          (case refine b h lnk e of
             (h', tloc) \<Rightarrow>
               (case resolve_location e (snd tloc) of
                  Inl ex \<Rightarrow> (h', Inl ex)
                | Inr loc \<Rightarrow>
                    if fst tloc \<noteq> [] \<and> lnk \<noteq> []
                    then (h', Inr (Some (job_record lnk (fst tloc) loc e)))
                    else (h', Inr None))))"

fun process_all ::
  "browser \<Rightarrow> history \<Rightarrow> job_data list \<Rightarrow> element list \<Rightarrow> history \<times> job_data list" where
  "process_all b h jobs [] = (h, jobs)"
| "process_all b h jobs (e # es) =
     (case process_element b h e of
        (h', Inl ex) \<Rightarrow> process_all b h' jobs es
      | (h', Inr None) \<Rightarrow> process_all b h' jobs es
      | (h', Inr (Some job)) \<Rightarrow> process_all b h' (jobs @ [job]) es)"

section \<open>\<open>scrape_gcf_jobs\<close>\<close>

text \<open>
  The result is the list \<open>jobs\<close> and the browser's history, which ends with the \<open>quit\<close> of
  the \<open>finally\<close> block. An error of the listing's load is caught at line 247, where
  \<open>jobs\<close> is still empty.
\<close>

definition scrape_gcf_jobs :: "browser \<Rightarrow> job_data list \<times> history" where
  "scrape_gcf_jobs b =
     (case load_listing b [] of
        (h, Inl e) \<Rightarrow> ([], h @ [Quit])
      | (h, Inr sp) \<Rightarrow>
          (case process_all b h [] (candidates sp) of (h', jobs) \<Rightarrow> (jobs, h' @ [Quit])))"

section \<open>\<open>generate_rss_feed\<close>\<close>

subsection \<open>The element tree\<close>

text \<open>
  An element of \<open>xml.etree.ElementTree\<close>: tag, attributes in insertion order, text and
  children. A tag in a namespace is written \<open>{uri}local\<close>.
\<close>

datatype xml = Element string "(string \<times> string) list" string "xml list"

definition atom_uri :: string where
  "atom_uri = ''http://www.w3.org/2005/Atom''"

definition SubElement :: "string \<Rightarrow> string \<Rightarrow> xml" where
  "SubElement tag txt = Element tag [] txt []"

text \<open>\<open>job.get(key, default)\<close>\<close>

definition get_default :: "string option \<Rightarrow> string \<Rightarrow> string" where
  "get_default v d = (case v of Some s \<Rightarrow> s | None \<Rightarrow> d)"

text \<open>Lines 291-315: one \<open>item\<close> per record; \<open>pubDate\<close> only when the record has one.\<close>

definition item :: "job_data \<Rightarrow> xml" where
  "item job = Element ''item'' [] []
     ([SubElement ''title'' (get_default (title job) ''Untitled Position''),
       SubElement ''link'' (get_default (link job) []),
       SubElement ''description'' (get_default (description job) []),
       Element ''guid'' [(''isPermaLink'', ''true'')] (get_default (link job) []) []]
      @ (if truthy (pubDate job) then [SubElement ''pubDate'' (get_default (pubDate job) [])]
         else []))"

text \<open>Lines 267-288: the channel's own fields; \<open>now\<close> is the formatted current time.\<close>

definition channel_metadata :: "string \<Rightarrow> xml list" where
  "channel_metadata now =
     [SubElement ''title'' ''Green Climate Fund Jobs'',
      SubElement ''link'' ''https://jobs.greenclimate.fund/en/sites/CX_1001/jobs'',
      SubElement ''description'' ''Job listings from Green Climate Fund'',
      SubElement ''language'' ''en-us'',
      Element (''{'' @ atom_uri @ ''}link'')
        [(''href'', ''https://cinfoposte.github.io/gcf-jobs/gcf_jobs.xml''),
         (''rel'', ''self''), (''type'', ''application/rss+xml'')] [] [],
      SubElement ''lastBuildDate'' now]"

definition rss_tree :: "string \<Rightarrow> job_data list \<Rightarrow> xml" where
  "rss_tree now jobs =
     Element ''rss'' [(''version'', ''2.0'')] []
       [Element ''channel'' [] [] (channel_metadata now @ map item jobs)]"

subsection \<open>Serialisation\<close>

text \<open>
  \<open>ET.tostring(rss, encoding='unicode')\<close> is a function of the standard library. This is
  its serialiser for the trees built above: a tag \<open>{uri}local\<close> is written
  \<open>prefix:local\<close>, where the prefix is the one registered for the namespace and otherwise
  a generated one (\<open>ns0\<close> for the first namespace met); the namespaces in use are
  declared on the root element, before its attributes; \<open>&\<close>, \<open><\<close>, \<open>>\<close> are escaped in
  text, and the double quote and the line breaks as well in attribute values; an element
  without text and children is written \<open><tag />\<close>.
\<close>

type_synonym registry = "(string \<times> string) list"

definition register_namespace :: "string \<Rightarrow> string \<Rightarrow> registry \<Rightarrow> registry" where
  "register_namespace pre uri reg = (uri, pre) # filter (\<lambda>(u, p). u \<noteq> uri \<and> p \<noteq> pre) reg"

definition namespace_of :: "string \<Rightarrow> string option" where
  "namespace_of tag =
     (case tag of [] \<Rightarrow> None
      | c # cs \<Rightarrow> if c = CHR ''{'' then Some (takeWhile (\<lambda>x. x \<noteq> CHR ''}'') cs) else None)"

definition local_name :: "string \<Rightarrow> string" where
  "local_name tag =
     (case namespace_of tag of None \<Rightarrow> tag
      | Some uri \<Rightarrow> drop 1 (dropWhile (\<lambda>x. x \<noteq> CHR ''}'') tag))"

definition prefix_of :: "registry \<Rightarrow> string \<Rightarrow> string" where
  "prefix_of reg uri = (case map_of reg uri of Some p \<Rightarrow> p | None \<Rightarrow> ''ns0'')"

definition qname :: "registry \<Rightarrow> string \<Rightarrow> string" where
  "qname reg tag =
     (case namespace_of tag of None \<Rightarrow> tag
      | Some uri \<Rightarrow> prefix_of reg uri @ '':'' @ local_name tag)"

fun escape_cdata :: "string \<Rightarrow> string" where
  "escape_cdata [] = []"
| "escape_cdata (c # cs) =
     (if c = CHR ''&'' then ''&amp;'' else if c = CHR ''<'' then ''&lt;''
      else if c = CHR ''>'' then ''&gt;'' else [c]) @ escape_cdata cs"

fun escape_attrib :: "string \<Rightarrow> string" where
  "escape_attrib [] = []"
| "escape_attrib (c # cs) =
     (if c = CHR ''&'' then ''&amp;'' else if c = CHR ''<'' then ''&lt;''
      else if c = CHR ''>'' then ''&gt;'' else if c = CHR 0x22 then ''&quot;''
      else if c = CHR 0x0D then ''&#13;'' else if c = CHR 0x0A then ''&#10;''
      else if c = CHR 0x09 then ''&#09;'' else [c]) @ escape_attrib cs"

text \<open>A value between double quotes.\<close>

definition quoted :: "string \<Rightarrow> string" where
  "quoted s = [CHR 0x22] @ s @ [CHR 0x22]"

definition write_attrib :: "string \<times> string \<Rightarrow> string" where
  "write_attrib kv = '' '' @ fst kv @ ''='' @ quoted (escape_attrib (snd kv))"

fun namespaces :: "xml \<Rightarrow> string list" where
  "namespaces (Element tag attrib txt children) =
     (case namespace_of tag of None \<Rightarrow> [] | Some uri \<Rightarrow> [uri])
     @ concat (map namespaces children)"

definition declarations :: "registry \<Rightarrow> xml \<Rightarrow> (string \<times> string) list" where
  "declarations reg t = map (\<lambda>uri. (''xmlns:'' @ prefix_of reg uri, uri)) (remdups (namespaces t))"

fun serialize :: "registry \<Rightarrow> (string \<times> string) list \<Rightarrow> xml \<Rightarrow> string" where
  "serialize reg decls (Element tag attrib txt children) =
     ''<'' @ qname reg tag @ concat (map write_attrib (decls @ attrib)) @
     (if txt \<noteq> [] \<or> children \<noteq> []
      then ''>'' @ escape_cdata txt @ concat (map (serialize reg []) children) @
           ''</'' @ qname reg tag @ ''>''
      else '' />'')"

definition tostring :: "registry \<Rightarrow> xml \<Rightarrow> string" where
  "tostring reg t = serialize reg (declarations reg t) t"

subsection \<open>The repairs of the namespace prefix (lines 320-327)\<close>

text \<open>
  \<open>re.sub(r'xmlns:atom="[^"]*"\s+xmlns:atom="[^"]*"', ..., xml_string)\<close>. Neither the
  quoted values nor the white space between the two declarations can be matched in more
  than one way, so a match at a position is read off from left to right.
\<close>

definition declaration_start :: string where
  "declaration_start = ''xmlns:atom='' @ [CHR 0x22]"

definition quoted_declaration :: "string \<Rightarrow> string option" where
  "quoted_declaration s =
     (if prefix declaration_start s
      then (case dropWhile (\<lambda>c. c \<noteq> CHR 0x22) (drop (length declaration_start) s) of
              [] \<Rightarrow> None | q # rest \<Rightarrow> Some rest)
      else None)"

definition duplicate_declaration :: "string \<Rightarrow> string option" where
  "duplicate_declaration s =
     (case quoted_declaration s of None \<Rightarrow> None
      | Some rest \<Rightarrow>
          if takeWhile is_space rest = [] then None
          else quoted_declaration (dropWhile is_space rest))"

lemma quoted_declaration_shorter:
  "quoted_declaration s = Some rest \<Longrightarrow> length rest < length s"
proof -
  assume a: "quoted_declaration s = Some rest"
  then obtain n q where d: "dropWhile (\<lambda>c. c \<noteq> CHR 0x22) (drop n s) = q # rest"
    unfolding quoted_declaration_def
    by (auto split: if_splits list.splits)
  then have "length rest < length (dropWhile (\<lambda>c. c \<noteq> CHR 0x22) (drop n s))" by simp
  also have "\<dots> \<le> length (drop n s)" by (rule length_dropWhile_le)
  also have "\<dots> \<le> length s" by simp
  finally show ?thesis .
qed

lemma duplicate_declaration_shorter:
  "duplicate_declaration s = Some rest \<Longrightarrow> length rest < length s"
proof -
  assume a: "duplicate_declaration s = Some rest"
  then obtain r1 where r1: "quoted_declaration s = Some r1"
    and r2: "quoted_declaration (dropWhile is_space r1) = Some rest"
    by (auto simp: duplicate_declaration_def split: option.splits if_splits)
  from r2 have "length rest < length (dropWhile is_space r1)"
    by (rule quoted_declaration_shorter)
  also have "\<dots> \<le> length r1" by (rule length_dropWhile_le)
  also from r1 have "\<dots> < length s" by (rule quoted_declaration_shorter)
  finally show ?thesis .
qed

function remove_duplicate_declarations :: "string \<Rightarrow> string" where
  "remove_duplicate_declarations [] = []"
| "remove_duplicate_declarations (x # xs) =
     (case duplicate_declaration (x # xs) of
        Some rest \<Rightarrow>
          ''xmlns:atom='' @ quoted atom_uri @ remove_duplicate_declarations rest
      | None \<Rightarrow> x # remove_duplicate_declarations xs)"
  by pat_completeness auto
termination
  by (relation "measure length") (auto dest: duplicate_declaration_shorter)

definition fix_prefix :: "string \<Rightarrow> string" where
  "fix_prefix xml_string =
     remove_duplicate_declarations
       (replace ''</ns0:'' ''</atom:''
         (replace ''<ns0:'' ''<atom:''
           (replace ''xmlns:ns0='' ''xmlns:atom='' xml_string)))"

subsection \<open>Writing the file (lines 329-337)\<close>

text \<open>Line 333: the lines that are not blank.\<close>

definition remove_blank_lines :: "string \<Rightarrow> string" where
  "remove_blank_lines pretty_xml =
     join [CHR 0x0A] (filter (\<lambda>line. strip line \<noteq> []) (split (CHR 0x0A) pretty_xml))"

text \<open>
  The files are a map from path to content. The second parse and the pretty printer
  (\<open>minidom.parseString(xml_string).toprettyxml(indent='  ')\<close>) belong to the standard
  library and are a parameter \<open>pretty\<close>, which raises on a text it cannot parse. The
  formatted current time is the parameter \<open>now\<close>. Writing the file is taken to succeed.
\<close>

type_synonym files = "string \<rightharpoonup> string"

definition xml_string :: "string \<Rightarrow> job_data list \<Rightarrow> string" where
  "xml_string now jobs =
     fix_prefix (tostring (register_namespace ''atom'' atom_uri []) (rss_tree now jobs))"

definition generate_rss_feed ::
  "(string \<Rightarrow> exn + string) \<Rightarrow> string \<Rightarrow> job_data list \<Rightarrow> string \<Rightarrow> files \<Rightarrow> exn + files" where
  "generate_rss_feed pretty now jobs output_file fs =
     (case pretty (xml_string now jobs) of
        Inl e \<Rightarrow> Inl e
      | Inr pretty_xml \<Rightarrow> Inr (fs(output_file \<mapsto> remove_blank_lines pretty_xml)))"

section \<open>\<open>main\<close>\<close>

text \<open>
  The result tells whether \<open>generate_rss_feed\<close> was called, and gives the files after the
  run or the error that \<open>generate_rss_feed\<close> let through.
\<close>

definition main ::
  "browser \<Rightarrow> (string \<Rightarrow> exn + string) \<Rightarrow> string \<Rightarrow> files \<Rightarrow> bool \<times> (exn + files)" where
  "main b pretty now fs =
     (let jobs = fst (scrape_gcf_jobs b) in
      if jobs \<noteq> [] then (True, generate_rss_feed pretty now jobs ''gcf_jobs.xml'' fs)
      else (False, Inr fs))"

section \<open>The scheme of a link, as the specification speaks of it\<close>

text \<open>
  The specification calls a link relative when it has no scheme. This is the scheme of the
  generic URI syntax: a letter followed by letters, digits, \<open>+\<close>, \<open>-\<close> or \<open>.\<close>, up to the
  first colon. The program does not use it; it is here to compare it with the test the
  program makes.
\<close>

definition is_alpha :: "char \<Rightarrow> bool" where
  "is_alpha c = (let n = (of_char c :: nat) in (65 \<le> n \<and> n \<le> 90) \<or> (97 \<le> n \<and> n \<le> 122))"

definition is_digit :: "char \<Rightarrow> bool" where
  "is_digit c = (let n = (of_char c :: nat) in 48 \<le> n \<and> n \<le> 57)"

definition scheme_char :: "char \<Rightarrow> bool" where
  "scheme_char c = (is_alpha c \<or> is_digit c \<or> c \<in> set ''+-.'')"

definition url_scheme :: "string \<Rightarrow> string option" where
  "url_scheme s =
     (let nm = takeWhile (\<lambda>c. c \<noteq> CHR '':'') s in
      if length nm < length s \<and> nm \<noteq> [] \<and> is_alpha (hd nm) \<and> list_all scheme_char nm
      then Some nm else None)"

section \<open>Syntactically valid documents\<close>



















section \<open>The texts and the tree that the properties speak of\<close>




section \<open>Example pages and browsers\<close>

text \<open>A tag on which every query comes back empty.\<close>

definition blank :: element where
  "blank = \<lparr>el_name = ''div'', el_href = None, el_text = [], el_heading_title = False,
     el_inner_href = None, el_automation_id = None, el_parent_texts = [],
     el_title_text = None, el_first_a_text = None, el_location_text = None,
     el_location_string = None, el_department_text = None, el_date_text = None\<rparr>"

definition page_of :: "element list \<Rightarrow> soup" where
  "page_of es = \<lparr>tags = es, h1_text = None, heading_title_text = None,
     location_label_text = None\<rparr>"

text \<open>A browser that shows the same page whatever is asked of it.\<close>

definition static_browser :: "soup \<Rightarrow> browser" where
  "static_browser sp = \<lparr>get = (\<lambda>h u. None), find_tab = (\<lambda>h. Inr False), click = (\<lambda>h. None),
     execute_script = (\<lambda>h s. None), page_source = (\<lambda>h. Inr sp)\<rparr>"


text \<open>A browser that cannot load anything.\<close>

definition offline_browser :: browser where
  "offline_browser = (static_browser (page_of []))
     \<lparr>get := (\<lambda>h u. Some (Exn ''net::ERR_INTERNET_DISCONNECTED'')),
      page_source := (\<lambda>h. Inl (Exn ''no page''))\<rparr>"

definition help_desk_link :: element where
  "help_desk_link = blank\<lparr>el_name := ''a'', el_href := Some ''/job/77/help-desk'',
     el_text := ''IT Officer''\<rparr>"

definition sitemap_link :: element where
  "sitemap_link = blank\<lparr>el_name := ''a'', el_href := Some ''/job/sitemap'',
     el_text := ''All jobs''\<rparr>"

definition engineer_card :: element where
  "engineer_card = blank\<lparr>el_name := ''div'', el_heading_title := True,
     el_inner_href := Some ''https://x/1'', el_title_text := Some ''Engineer'',
     el_location_text := Some ''Remote''\<rparr>"

definition mail_link :: element where
  "mail_link = blank\<lparr>el_name := ''a'',
     el_href := Some ''mailto:?subject=Vacancy&body=/job/12'', el_text := ''Share this vacancy''\<rparr>"



definition analyst_link :: element where
  "analyst_link = blank\<lparr>el_name := ''a'', el_href := Some ''/job/40'', el_text := ''Analyst''\<rparr>"


section \<open>Properties of the extraction\<close>

subsection \<open>Auxiliary facts\<close>

lemma sublist_lower: "sublist kw s \<Longrightarrow> sublist (lower kw) (lower s)"
  unfolding lower_def by (rule map_mono_sublist)

lemma candidates_subset:
  "set (candidates sp) \<subseteq> {e \<in> set (snd (discover sp)). \<not> is_navigation e}"
  unfolding candidates_def filtered_elements_def
  using set_take_subset by fastforce

lemma job_record_simps:
  "link (job_record lnk ttl loc e) = Some lnk"
  "title (job_record lnk ttl loc e) = Some ttl"
  "location (job_record lnk ttl loc e) = Some loc"
  "department (job_record lnk ttl loc e) =
     Some (case el_department_text e of Some t \<Rightarrow> t | None \<Rightarrow> [])"
  "description (job_record lnk ttl loc e) =
     Some (join '' | '' (description_parts ttl loc
       (case el_department_text e of Some t \<Rightarrow> t | None \<Rightarrow> [])))"
  by (simp_all add: job_record_def Let_def)

text \<open>What is known when the body of the loop appends a record.\<close>

lemma process_element_accepted:
  assumes "process_element b h e = (h', Inr (Some job))"
  obtains lnk ttl loc0 loc where
    "extract_link e = Some lnk" "refine b h lnk e = (h', (ttl, loc0))"
    "resolve_location e loc0 = Inr loc" "ttl \<noteq> []" "lnk \<noteq> []"
    "job = job_record lnk ttl loc e"
  using assms unfolding process_element_def
  by (auto split: option.splits prod.splits sum.splits if_splits)






lemma process_all_preserves:
  assumes "\<forall>j\<in>set jobs. P j"
    and "\<And>h e h' j. process_element b h e = (h', Inr (Some j)) \<Longrightarrow> P j"
  shows "\<forall>j\<in>set (snd (process_all b h jobs es)). P j"
  using assms(1)
proof (induction es arbitrary: h jobs)
  case Nil
  then show ?case by simp
next
  case (Cons e es)
  obtain h' r where r: "process_element b h e = (h', r)"
    by (cases "process_element b h e")
  show ?case
  proof (cases r)
    case (Inl ex)
    with r Cons show ?thesis by simp
  next
    case (Inr res)
    show ?thesis
    proof (cases res)
      case None
      with r Inr Cons show ?thesis by simp
    next
      case (Some j)
      with r Inr have "P j" using assms(2) by blast
      with Cons.prems have "\<forall>x\<in>set (jobs @ [j]). P x" by simp
      from Cons.IH [OF this] r Inr Some show ?thesis by simp
    qed
  qed
qed

lemma scrape_jobs_from_elements:
  assumes "\<And>h e h' j. process_element b h e = (h', Inr (Some j)) \<Longrightarrow> P j"
    and "job \<in> set (fst (scrape_gcf_jobs b))"
  shows "P job"
proof -
  obtain h r where l: "load_listing b [] = (h, r)"
    by (cases "load_listing b []")
  show ?thesis
  proof (cases r)
    case (Inl ex)
    with l assms(2) show ?thesis by (simp add: scrape_gcf_jobs_def)
  next
    case (Inr sp)
    have "\<forall>j\<in>set (snd (process_all b h [] (candidates sp))). P j"
      by (rule process_all_preserves) (simp, rule assms(1))
    with l Inr assms(2) show ?thesis
      by (auto simp: scrape_gcf_jobs_def split: prod.splits)
  qed
qed

text \<open>
  The description of every returned record, as lines 229-235 build it: the location part is
  left out exactly for the location \<open>Not specified\<close>, the department part exactly for the
  empty department.
\<close>

lemma description_of_returned_record:
  assumes "job \<in> set (fst (scrape_gcf_jobs b))"
  shows "\<exists>ttl loc dept. title job = Some ttl \<and> location job = Some loc \<and>
           department job = Some dept \<and>
           description job = Some (join '' | ''
             ([ttl] @ (if loc \<noteq> ''Not specified'' then [''Location: '' @ loc] else [])
                    @ (if dept \<noteq> [] then [''Department: '' @ dept] else [])))"
proof (rule scrape_jobs_from_elements [OF _ assms])
  fix h e h' j
  assume "process_element b h e = (h', Inr (Some j))"
  then obtain lnk ttl loc where "j = job_record lnk ttl loc e"
    by (rule process_element_accepted)
  then show "\<exists>ttl loc dept. title j = Some ttl \<and> location j = Some loc \<and>
           department j = Some dept \<and>
           description j = Some (join '' | ''
             ([ttl] @ (if loc \<noteq> ''Not specified'' then [''Location: '' @ loc] else [])
                    @ (if dept \<noteq> [] then [''Department: '' @ dept] else [])))"
    by (simp add: job_record_simps description_parts_def)
qed

subsection \<open>Title refinement on the detail page\<close>




subsection \<open>Filtering\<close>

text \<open>The keywords are in lower case, so a text that contains one still does in lower case.\<close>

lemma any_in_lower:
  assumes "set kws \<subseteq> set skip_keywords" and "any_in kws s"
  shows "any_in kws (lower s)"
proof -
  have k: "\<forall>kw\<in>set skip_keywords. lower kw = kw" by code_simp
  from assms(2) obtain kw where kw: "kw \<in> set kws" "sublist kw s"
    by (auto simp: any_in_def list_ex_iff)
  from kw(2) have "sublist (lower kw) (lower s)" by (rule sublist_lower)
  with kw(1) assms(1) k have "sublist kw (lower s)" by auto
  with kw(1) show ?thesis by (auto simp: any_in_def list_ex_iff)
qed

text \<open>
  C3, as the program has it. A candidate is dropped by the filtering step if its visible
  text, as it is or in lower case, contains one of the keywords sitemap, account, sign-in,
  profile, help, about, or if it is itself a hyperlink whose link target, as it is or in
  lower case, contains one of sitemap, sign-in, profile. The keywords account, help and
  about are not applied to the link target.
\<close>

theorem navigation_candidate_dropped:
  assumes "any_in skip_keywords (el_text e) \<or> any_in skip_keywords (lower (el_text e)) \<or>
           (el_name e = ''a'' \<and>
            (\<exists>h. el_href e = Some h \<and>
                 (any_in link_skip_keywords h \<or> any_in link_skip_keywords (lower h))))"
  shows "e \<notin> set (candidates sp)"
proof -
  have l: "set link_skip_keywords \<subseteq> set skip_keywords"
    by (simp add: link_skip_keywords_def skip_keywords_def)
  from assms consider "any_in skip_keywords (lower (el_text e))"
    | h where "el_name e = ''a''" "el_href e = Some h" "any_in link_skip_keywords (lower h)"
    using any_in_lower [OF subset_refl] any_in_lower [OF l] by blast
  then have "is_navigation e"
    by cases (simp_all add: is_navigation_def Let_def)
  with candidates_subset [of sp] show ?thesis by blast
qed

theorem navigation_candidate_dropped_witness:
  "sitemap_link \<in> set (snd (discover (page_of [sitemap_link]))) \<and>
   el_name sitemap_link = ''a'' \<and> el_href sitemap_link = Some ''/job/sitemap'' \<and>
   any_in link_skip_keywords (lower ''/job/sitemap'') \<and>
   sitemap_link \<notin> set (candidates (page_of [sitemap_link]))"
proof -
  have a: "el_name sitemap_link = ''a''" "el_href sitemap_link = Some ''/job/sitemap''"
    by (simp_all add: sitemap_link_def)
  have b: "any_in link_skip_keywords (lower ''/job/sitemap'')" by code_simp
  have c: "sitemap_link \<in> set (snd (discover (page_of [sitemap_link])))" by code_simp
  from a b have "sitemap_link \<notin> set (candidates (page_of [sitemap_link]))"
    by (intro navigation_candidate_dropped) auto
  with a b c show ?thesis by simp
qed

text \<open>
  The claim as it was stated fails for the keyword help in a link target: the candidate is
  discovered and survives the filter.
\<close>

theorem help_in_link_target_kept:
  "el_href help_desk_link = Some ''/job/77/help-desk'' \<and>
   any_in skip_keywords ''/job/77/help-desk'' \<and>
   help_desk_link \<in> set (snd (discover (page_of [help_desk_link]))) \<and>
   candidates (page_of [help_desk_link]) = [help_desk_link]"
  by code_simp

subsection \<open>Discovery\<close>

text \<open>
  C4, as the program has it. On a page with N job links for strategy 1, where N is at least
  1 and none of them is a navigation link for the filter, only the queries of strategy 1
  run, and exactly min(N, 50) candidates, the first ones in document order, enter the
  per-candidate extraction.
\<close>

theorem first_strategy_only:
  assumes "job_links sp \<noteq> []" and "\<forall>e\<in>set (job_links sp). \<not> is_navigation e"
  shows "fst (discover sp) = [Strategy1] \<and> candidates sp = take 50 (job_links sp) \<and>
         length (candidates sp) = min (length (job_links sp)) 50"
proof -
  from assms(1) have d: "discover sp = ([Strategy1], job_links sp)"
    by (simp add: discover_def Let_def)
  from assms(2) have "filtered_elements (job_links sp) = job_links sp"
    by (simp add: filtered_elements_def)
  with d show ?thesis by (simp add: candidates_def min.commute)
qed

text \<open>A page with 51 job links and a card: strategy 1 alone runs and 50 links go on.\<close>

theorem first_strategy_only_witness:
  "job_links (page_of (replicate 51 analyst_link @ [engineer_card])) =
     replicate 51 analyst_link \<and>
   \<not> is_navigation analyst_link \<and>
   fst (discover (page_of (replicate 51 analyst_link @ [engineer_card]))) = [Strategy1] \<and>
   length (candidates (page_of (replicate 51 analyst_link @ [engineer_card]))) = 50"
proof -
  let ?sp = "page_of (replicate 51 analyst_link @ [engineer_card])"
  have j: "job_links ?sp = replicate 51 analyst_link"
    by (simp add: job_links_def page_of_def analyst_link_def engineer_card_def blank_def
        job_href_def)
  have n: "\<not> is_navigation analyst_link" by code_simp
  from j have a: "job_links ?sp \<noteq> []" by simp
  from j n have b: "\<forall>e\<in>set (job_links ?sp). \<not> is_navigation e" by simp
  from first_strategy_only [OF a b] j n show ?thesis by simp
qed

text \<open>
  The claim as it was stated fails for N = 0: without job links the queries of strategy 2
  run, and a candidate enters the extraction.
\<close>

theorem later_strategy_runs_without_job_links:
  "job_links (page_of [engineer_card]) = [] \<and>
   fst (discover (page_of [engineer_card])) = [Strategy1, Strategy2] \<and>
   candidates (page_of [engineer_card]) = [engineer_card]"
  by code_simp

subsection \<open>Links\<close>

text \<open>
  C5, as the program has it. The link of a record is the candidate's link attribute
  unchanged if the attribute starts with \<open>http\<close>, and the attribute prefixed with
  \<open>https://jobs.greenclimate.fund\<close> otherwise.
\<close>

theorem link_made_absolute:
  assumes "link_attribute e = Some href" and "process_element b h e = (h', Inr (Some job))"
  shows "link job = Some (if prefix ''http'' href then href
                          else ''https://jobs.greenclimate.fund'' @ href)"
proof -
  from assms(2) obtain lnk ttl loc where
    "extract_link e = Some lnk" "job = job_record lnk ttl loc e"
    by (rule process_element_accepted)
  with assms(1) show ?thesis
    by (auto simp: extract_link_def absolute_link_def origin_def job_record_simps)
qed

theorem link_made_absolute_witness:
  "link_attribute analyst_link = Some ''/job/40'' \<and>
   process_element (static_browser (page_of [])) [] analyst_link =
     ([], Inr (Some (job_record ''https://jobs.greenclimate.fund/job/40'' ''Analyst''
                      ''Green Climate Fund'' analyst_link))) \<and>
   link (job_record ''https://jobs.greenclimate.fund/job/40'' ''Analyst''
           ''Green Climate Fund'' analyst_link) = Some ''https://jobs.greenclimate.fund/job/40''"
proof -
  let ?j = "job_record ''https://jobs.greenclimate.fund/job/40'' ''Analyst''
              ''Green Climate Fund'' analyst_link"
  have a: "link_attribute analyst_link = Some ''/job/40''" by code_simp
  have p: "process_element (static_browser (page_of [])) [] analyst_link = ([], Inr (Some ?j))"
    by code_simp
  from link_made_absolute [OF a p] have "link ?j = Some ''https://jobs.greenclimate.fund/job/40''"
    by simp
  with a p show ?thesis by simp
qed

text \<open>
  The claim as it was stated fails for a link with a scheme other than http: the
  \<open>mailto\<close> link of a share button is not passed through unchanged.
\<close>

theorem mailto_link_not_passed_through:
  "url_scheme ''mailto:?subject=Vacancy&body=/job/12'' = Some ''mailto'' \<and>
   link_attribute mail_link = Some ''mailto:?subject=Vacancy&body=/job/12'' \<and>
   mail_link \<in> set (candidates (page_of [mail_link])) \<and>
   process_element (static_browser (page_of [])) [] mail_link =
     ([], Inr (Some \<lparr>
        link = Some ''https://jobs.greenclimate.fundmailto:?subject=Vacancy&body=/job/12'',
        title = Some ''Share this vacancy'', location = Some ''Green Climate Fund'',
        department = Some [], pubDate = Some [],
        description = Some ''Share this vacancy | Location: Green Climate Fund''\<rparr>))"
  by code_simp

subsection \<open>Accepted records\<close>

text \<open>
  C6. Every record that \<open>scrape_gcf_jobs\<close> returns has a title that is not empty and a
  link that is not empty.
\<close>

theorem accepted_records_nonempty:
  assumes "job \<in> set (fst (scrape_gcf_jobs b))"
  shows "truthy (title job) \<and> truthy (link job)"
proof (rule scrape_jobs_from_elements [OF _ assms])
  fix h e h' j
  assume "process_element b h e = (h', Inr (Some j))"
  then show "truthy (title j) \<and> truthy (link j)"
    by (rule process_element_accepted) (simp add: job_record_simps)
qed

theorem accepted_records_nonempty_witness:
  "fst (scrape_gcf_jobs (static_browser (page_of [engineer_card]))) =
     [job_record ''https://x/1'' ''Engineer'' ''Remote'' engineer_card] \<and>
   truthy (title (job_record ''https://x/1'' ''Engineer'' ''Remote'' engineer_card)) \<and>
   truthy (link (job_record ''https://x/1'' ''Engineer'' ''Remote'' engineer_card))"
proof -
  let ?j = "job_record ''https://x/1'' ''Engineer'' ''Remote'' engineer_card"
  have s: "fst (scrape_gcf_jobs (static_browser (page_of [engineer_card]))) = [?j]"
    by code_simp
  then have "?j \<in> set (fst (scrape_gcf_jobs (static_browser (page_of [engineer_card]))))"
    by simp
  from accepted_records_nonempty [OF this] s show ?thesis by simp
qed

subsection \<open>Description\<close>

text \<open>
  C2. The location part of the description is left out for the location \<open>Not specified\<close>
  (\<open>description_of_returned_record\<close>), but the location assigned when none is found is
  \<open>Green Climate Fund\<close>: the record of a link without any location has the description
  \<open>Analyst | Location: Green Climate Fund\<close>. The record of the claim's example has the
  description \<open>Engineer | Location: Remote\<close>.
\<close>

theorem default_location_in_description:
  "find_location analyst_link = Inr ''Green Climate Fund'' \<and>
   fst (scrape_gcf_jobs (static_browser (page_of [analyst_link]))) =
     [\<lparr>link = Some ''https://jobs.greenclimate.fund/job/40'', title = Some ''Analyst'',
       location = Some ''Green Climate Fund'', department = Some [], pubDate = Some [],
       description = Some ''Analyst | Location: Green Climate Fund''\<rparr>] \<and>
   fst (scrape_gcf_jobs (static_browser (page_of [engineer_card]))) =
     [\<lparr>link = Some ''https://x/1'', title = Some ''Engineer'',
       location = Some ''Remote'', department = Some [], pubDate = Some [],
       description = Some ''Engineer | Location: Remote''\<rparr>]"
  by code_simp

subsection \<open>Errors\<close>




section \<open>Properties of \<open>main\<close>\<close>

text \<open>
  C10. When \<open>scrape_gcf_jobs\<close> returns no record, \<open>main\<close> does not call
  \<open>generate_rss_feed\<close>, and the files are what they were before the run.
\<close>

theorem no_jobs_no_feed:
  assumes "fst (scrape_gcf_jobs b) = []"
  shows "main b pretty now fs = (False, Inr fs)"
  using assms by (simp add: main_def)

theorem no_jobs_no_feed_witness:
  "fst (scrape_gcf_jobs offline_browser) = [] \<and>
   main offline_browser Inr ''Wed, 04 Nov 2026 12:24:00 +0000''
     [''gcf_jobs.xml'' \<mapsto> ''<rss/>''] = (False, Inr [''gcf_jobs.xml'' \<mapsto> ''<rss/>''])"
proof -
  have s: "fst (scrape_gcf_jobs offline_browser) = []" by code_simp
  from no_jobs_no_feed [OF s] s show ?thesis by simp
qed

text \<open>With records, the feed is generated and written to \<open>gcf_jobs.xml\<close>.\<close>

lemma jobs_then_feed_written:
  assumes "fst (scrape_gcf_jobs b) \<noteq> []"
    and "pretty (xml_string now (fst (scrape_gcf_jobs b))) = Inr pretty_xml"
  shows "main b pretty now fs =
         (True, Inr (fs(''gcf_jobs.xml'' \<mapsto> remove_blank_lines pretty_xml)))"
  using assms by (simp add: main_def generate_rss_feed_def)

section \<open>Properties of the feed\<close>

subsection \<open>The serialised feed\<close>

text \<open>Only the self-link of the channel is in a namespace.\<close>

lemma namespaces_item: "namespaces (item job) = []"
  by (simp add: item_def SubElement_def namespace_of_def)

lemma namespaces_rss_tree: "namespaces (rss_tree now jobs) = [atom_uri]"
proof -
  have "concat (map namespaces (map item jobs)) = []"
    by (induction jobs) (simp_all add: namespaces_item)
  then show ?thesis
    by (simp add: rss_tree_def channel_metadata_def SubElement_def namespace_of_def atom_uri_def)
qed




















subsection \<open>Reading the feed without items\<close>







subsection \<open>The namespace declaration\<close>










text \<open>Without the registration of line 259 the serialiser would generate a prefix.\<close>

lemma unregistered_prefix_is_generated:
  "declarations [] (rss_tree now jobs) = [(''xmlns:ns0'', ''http://www.w3.org/2005/Atom'')]"
  by (simp add: declarations_def namespaces_rss_tree prefix_of_def atom_uri_def)







end
